theory Spec2Isabelle
  imports Complex_Main "HOL-Library.AList" "HOL-Library.Multiset"
begin

section \<open>The emotion handler of \<open>src/Emotion/EmotionHandler.py\<close>\<close>

text \<open>
  The module is a small DQN agent: per-emotion reward and initiative dictionaries, a
  three-layer network scoring three actions, an epsilon-greedy policy, a bounded replay
  buffer and a training loop.

  Conventions of the embedding.
  \<^item> Python numbers (the \<open>int\<close> 1 the dictionaries start with, the \<open>float\<close>s added later,
    tensor entries) are \<open>real\<close> and arithmetic is exact. The rounding, absorption, overflow
    and NaN of IEEE doubles are not represented: where the source stores a rounded sum
    (in doubles \<open>1 + 1e16\<close> is \<open>1e16\<close> and \<open>1.1 + 0.1\<close> is \<open>1.2000000000000002\<close>) the
    model holds the exact one, so nothing below is a statement about the exact value a
    floating-point operation stores.
  \<^item> A \<open>dict\<close> is an association list with distinct keys in insertion order, since
    \<open>values()\<close>, \<open>items()\<close> and the stable sort observe that order.
  \<^item> Every raise of the source is an \<open>Inl\<close> of the result. A raise returns the error
    only: what the method had already assigned before it is not kept.
  \<^item> Random draws (\<open>np.random.rand\<close>, \<open>random.randrange\<close>, \<open>random.uniform\<close>,
    \<open>random.sample\<close>), the freshly initialised network and the optimiser's update are
    arguments of the functions that consume them.
\<close>

subsection \<open>Errors and dictionaries\<close>

datatype error = KeyError | IndexError | ValueError | TypeError | RuntimeError

definition bind_err :: "error + 'a \<Rightarrow> ('a \<Rightarrow> error + 'b) \<Rightarrow> error + 'b" where
  "bind_err r f = (case r of Inl e \<Rightarrow> Inl e | Inr x \<Rightarrow> f x)"

type_synonym 'v dict = "(string \<times> 'v) list"

text \<open>\<open>d[k]\<close>: KeyError when the key is absent.\<close>

definition dict_get :: "'v dict \<Rightarrow> string \<Rightarrow> error + 'v" where
  "dict_get d k = (case map_of d k of None \<Rightarrow> Inl KeyError | Some v \<Rightarrow> Inr v)"

text \<open>\<open>d[k] = v\<close>: an existing key keeps its position, a new key goes to the end.\<close>

definition dict_set :: "'v dict \<Rightarrow> string \<Rightarrow> 'v \<Rightarrow> 'v dict" where
  "dict_set d k v = AList.update k v d"

text \<open>\<open>{emotion: v for emotion in keys}\<close>\<close>

definition dict_comprehension :: "string list \<Rightarrow> 'v \<Rightarrow> 'v dict" where
  "dict_comprehension keys v = foldl (\<lambda>d k. dict_set d k v) [] keys"

subsection \<open>Module constants (lines 12-14)\<close>

definition module_emotions :: "string list" where
  "module_emotions =
     [''anger'', ''disgust'', ''fear'', ''joy'', ''neutral'', ''sadness'', ''surprise'']"

definition module_state_size :: int where
  "module_state_size = int (length module_emotions) * 2"

definition module_action_size :: int where
  "module_action_size = 3"

subsection \<open>The network (class DQN, lines 18-28)\<close>

text \<open>
  An \<open>nn.Linear\<close> layer holds one weight row and one bias per output. Applying it to a
  vector whose length differs from the rows' is torch's shape error.
\<close>

record linear =
  weight :: "real list list"
  bias :: "real list"

record DQN =
  fc1 :: linear
  fc2 :: linear
  fc3 :: linear

definition dot :: "real list \<Rightarrow> real list \<Rightarrow> real" where
  "dot xs ys = sum_list (map2 (*) xs ys)"

definition apply_linear :: "linear \<Rightarrow> real list \<Rightarrow> error + real list" where
  "apply_linear l x =
     (if list_all (\<lambda>row. length row = length x) (weight l)
         \<and> length (weight l) = length (bias l)
      then Inr (map2 (\<lambda>row b. dot row x + b) (weight l) (bias l))
      else Inl RuntimeError)"

definition relu :: "real list \<Rightarrow> real list" where
  "relu x = map (\<lambda>v. max 0 v) x"

definition forward :: "DQN \<Rightarrow> real list \<Rightarrow> error + real list" where
  "forward net x =
     bind_err (apply_linear (fc1 net) x) (\<lambda>x1.
     bind_err (apply_linear (fc2 net) (relu x1)) (\<lambda>x2.
     apply_linear (fc3 net) (relu x2)))"

text \<open>\<open>torch.max(t).item()\<close> and \<open>torch.argmax(t).item()\<close> of a one-dimensional tensor: on an
  empty tensor \<open>max\<close> raises RuntimeError and \<open>argmax\<close> IndexError; argmax returns the first
  index that holds the maximum.\<close>

definition torch_max :: "real list \<Rightarrow> error + real" where
  "torch_max t = (case t of [] \<Rightarrow> Inl RuntimeError | v # vs \<Rightarrow> Inr (fold max vs v))"

fun argmax_from :: "nat \<Rightarrow> real \<Rightarrow> nat \<Rightarrow> real list \<Rightarrow> nat" where
  "argmax_from best bv i [] = best"
| "argmax_from best bv i (v # vs) =
     (if bv < v then argmax_from i v (Suc i) vs else argmax_from best bv (Suc i) vs)"

definition torch_argmax :: "real list \<Rightarrow> error + int" where
  "torch_argmax t =
     (case t of [] \<Rightarrow> Inl IndexError | v # vs \<Rightarrow> Inr (int (argmax_from 0 v 1 vs)))"

subsection \<open>The handler object (class EmotionHandler)\<close>

type_synonym state = "real list"

text \<open>A stored experience \<open>(state, action, reward, next_state, done)\<close>. The two state slots
  hold whatever the caller passes, which may be \<open>None\<close> (the initial \<open>previous_state\<close>).\<close>

type_synonym transition = "state option \<times> int \<times> real \<times> state option \<times> bool"

record 'o handler =
  initialized :: bool
  emotions :: "string list"
  emotion_reward_map :: "real dict"
  initiative_map :: "real dict"
  repeated_tone_count :: int
  random_factor :: real
  high_initiative_threshold :: real
  current_user_emotion :: string
  current_llm_emotion :: "string list"
  state_size :: int
  action_size :: int
  gamma :: real
  epsilon :: real
  epsilon_min :: real
  epsilon_decay :: real
  learning_rate :: real
  previous_state :: "state option"
  memory :: "transition list"
  model :: DQN
  optimizer :: 'o

text \<open>The arguments of \<open>__init__\<close> (line 40), with the network and optimiser state that
  \<open>DQN(state_size, action_size)\<close> and \<open>optim.Adam\<close> produce.\<close>

record 'o init_args =
  arg_emotions :: "string list"
  arg_state_size :: int
  arg_action_size :: int
  arg_gamma :: real
  arg_epsilon :: real
  arg_epsilon_min :: real
  arg_epsilon_decay :: real
  arg_learning_rate :: real
  arg_model :: DQN
  arg_optimizer :: 'o

definition default_args :: "DQN \<Rightarrow> 'o \<Rightarrow> 'o init_args" where
  "default_args net opt =
     \<lparr>arg_emotions = module_emotions, arg_state_size = module_state_size,
      arg_action_size = module_action_size, arg_gamma = 0.95, arg_epsilon = 1.0,
      arg_epsilon_min = 0.01, arg_epsilon_decay = 0.995, arg_learning_rate = 0.001,
      arg_model = net, arg_optimizer = opt\<rparr>"

text \<open>The attribute assignments of \<open>__init__\<close>, lines 44-75.\<close>

definition init_fields :: "'o init_args \<Rightarrow> 'o handler" where
  "init_fields a =
     \<lparr>initialized = True,
      emotions = arg_emotions a,
      emotion_reward_map = dict_comprehension (arg_emotions a) 1,
      initiative_map = dict_comprehension (arg_emotions a) 1,
      repeated_tone_count = 0,
      random_factor = 0.3,
      high_initiative_threshold = 1.3,
      current_user_emotion = ''neutral'',
      current_llm_emotion = [''neutral''],
      state_size = arg_state_size a,
      action_size = arg_action_size a,
      gamma = arg_gamma a,
      epsilon = arg_epsilon a,
      epsilon_min = arg_epsilon_min a,
      epsilon_decay = arg_epsilon_decay a,
      learning_rate = arg_learning_rate a,
      previous_state = None,
      memory = [],
      model = arg_model a,
      optimizer = arg_optimizer a\<rparr>"

subsection \<open>The singleton (\<open>__new__\<close> and \<open>__init__\<close>, lines 32-44)\<close>

text \<open>
  Objects live in a store; \<open>EmotionHandler._instance\<close> holds a reference or \<open>None\<close>. An
  object fresh from \<open>object.__new__\<close> has no attributes (\<open>Bare\<close>).
\<close>

datatype 'o obj = Bare | Attrs "'o handler"

record 'o world =
  cls_instance :: "nat option"
  heap :: "(nat \<times> 'o obj) list"
  next_ref :: nat

definition new_instance :: "'o world \<Rightarrow> nat \<times> 'o world" where
  "new_instance w =
     (case cls_instance w of
        None \<Rightarrow>
          (let r = next_ref w
           in (r, w\<lparr>cls_instance := Some r, heap := AList.update r Bare (heap w),
                    next_ref := Suc r\<rparr>))
      | Some r \<Rightarrow> (r, w))"

text \<open>\<open>hasattr(self, '_initialized') and self._initialized\<close>\<close>

definition is_initialized :: "'o obj option \<Rightarrow> bool" where
  "is_initialized ob =
     (case ob of Some (Attrs h) \<Rightarrow> initialized h | _ \<Rightarrow> False)"

definition init_instance :: "'o init_args \<Rightarrow> nat \<Rightarrow> 'o world \<Rightarrow> 'o world" where
  "init_instance a r w =
     (if is_initialized (map_of (heap w) r) then w
      else w\<lparr>heap := AList.update r (Attrs (init_fields a)) (heap w)\<rparr>)"

text \<open>The call \<open>EmotionHandler(...)\<close>: \<open>__new__\<close>, then \<open>__init__\<close> on what it returned.\<close>

definition EmotionHandler :: "'o init_args \<Rightarrow> 'o world \<Rightarrow> nat \<times> 'o world" where
  "EmotionHandler a w =
     (case new_instance w of (r, w') \<Rightarrow> (r, init_instance a r w'))"

definition empty_world :: "'o world" where
  "empty_world = \<lparr>cls_instance = None, heap = [], next_ref = 0\<rparr>"

subsection \<open>State, ranking and policy (lines 95-136)\<close>

definition get_current_state :: "'o handler \<Rightarrow> state" where
  "get_current_state h = map snd (emotion_reward_map h) @ map snd (initiative_map h)"

definition get_previous_state :: "'o handler \<Rightarrow> state option" where
  "get_previous_state h = previous_state h"

text \<open>
  \<open>sorted(items, key=lambda item: item[1], reverse=True)\<close>. CPython sorts stably and
  implements \<open>reverse=True\<close> by reversing the list before and after the stable sort;
  \<open>sort_key\<close> is the library's stable insertion sort.
\<close>

definition sorted_reverse :: "(string \<times> real) list \<Rightarrow> (string \<times> real) list" where
  "sorted_reverse items = rev (sort_key snd (rev items))"

text \<open>\<open>sorted_emotions[i][0]\<close>\<close>

definition item_key :: "(string \<times> real) list \<Rightarrow> nat \<Rightarrow> error + string" where
  "item_key xs i = (if i < length xs then Inr (fst (xs ! i)) else Inl IndexError)"

definition map_action_to_emotions :: "int \<Rightarrow> 'o handler \<Rightarrow> error + string list" where
  "map_action_to_emotions action h =
     (let sorted_emotions = sorted_reverse (initiative_map h)
      in if action = 0 then
           bind_err (item_key sorted_emotions 0) (\<lambda>a. Inr [a])
         else if action = 1 then
           bind_err (item_key sorted_emotions 0) (\<lambda>a.
           bind_err (item_key sorted_emotions 1) (\<lambda>b. Inr [a, b]))
         else
           bind_err (item_key sorted_emotions 0) (\<lambda>a.
           bind_err (item_key sorted_emotions 1) (\<lambda>b.
           bind_err (item_key sorted_emotions 2) (\<lambda>c. Inr [a, b, c]))))"

text \<open>\<open>random.randrange(n)\<close> raises ValueError for \<open>n \<le> 0\<close>; otherwise it returns the value
  \<open>pick\<close> the random source supplies, \<open>0 \<le> pick < n\<close>.\<close>

definition randrange :: "int \<Rightarrow> int \<Rightarrow> error + int" where
  "randrange pick n = (if n \<le> 0 then Inl ValueError else Inr pick)"

text \<open>\<open>act\<close>: \<open>draw\<close> is the value of \<open>np.random.rand()\<close>, a float of the half-open
  interval from 0 to 1, zero included.\<close>

definition act :: "real \<Rightarrow> int \<Rightarrow> state \<Rightarrow> 'o handler \<Rightarrow> error + int" where
  "act draw pick st h =
     (if draw \<le> epsilon h then randrange pick (action_size h)
      else bind_err (forward (model h) st) torch_argmax)"

definition choose_emotions_based_on_initiative ::
  "real \<Rightarrow> int \<Rightarrow> 'o handler \<Rightarrow> error + string list" where
  "choose_emotions_based_on_initiative draw pick h =
     bind_err (act draw pick (get_current_state h) h) (\<lambda>action.
     map_action_to_emotions action h)"

subsection \<open>Replay buffer and statistics update (lines 160-181)\<close>

text \<open>\<open>deque(maxlen=4000).append\<close>: a full deque drops its leftmost element.\<close>

definition maxlen :: nat where
  "maxlen = 4000"

definition deque_append :: "'a list \<Rightarrow> 'a \<Rightarrow> 'a list" where
  "deque_append q x = (if length q \<ge> maxlen then tl q @ [x] else q @ [x])"

definition remember ::
  "state option \<Rightarrow> int \<Rightarrow> real \<Rightarrow> state option \<Rightarrow> bool \<Rightarrow> 'o handler \<Rightarrow> 'o handler" where
  "remember previous_st action reward current_st done h =
     h\<lparr>memory := deque_append (memory h) (previous_st, action, reward, current_st, done)\<rparr>"

text \<open>\<open>d[k] += v\<close>, with the exact sum where Python stores the sum rounded to a double.\<close>

definition dict_add :: "real dict \<Rightarrow> string \<Rightarrow> real \<Rightarrow> error + real dict" where
  "dict_add d k v = bind_err (dict_get d k) (\<lambda>old. Inr (dict_set d k (old + v)))"

definition update_emotion_and_initiative ::
  "string \<Rightarrow> real \<Rightarrow> 'o handler \<Rightarrow> error + 'o handler" where
  "update_emotion_and_initiative user_prompt_emotion feedback h =
     (let h1 = h\<lparr>previous_state := Some (get_current_state h)\<rparr>
      in bind_err (dict_add (emotion_reward_map h1) user_prompt_emotion feedback) (\<lambda>rm.
         bind_err (dict_add (initiative_map h1) user_prompt_emotion 0.1) (\<lambda>im.
         Inr (h1\<lparr>emotion_reward_map := rm, initiative_map := im\<rparr>))))"

subsection \<open>The learning cycle (lines 183-192)\<close>

text \<open>\<open>feedback\<close> is the value of \<open>random.uniform(-1, 1)\<close>; \<open>draw\<close> and \<open>pick\<close> feed \<open>act\<close>.\<close>

definition learn_from_inference ::
  "real \<Rightarrow> real \<Rightarrow> int \<Rightarrow> 'o handler \<Rightarrow> error + 'o handler" where
  "learn_from_inference feedback draw pick h =
     (let user_emotion = current_user_emotion h
      in bind_err (update_emotion_and_initiative user_emotion feedback h) (\<lambda>h1.
         let current_state = get_current_state h1
         in bind_err (act draw pick current_state h1) (\<lambda>action.
            Inr (remember (Some current_state) action feedback (previous_state h1)
                   False h1))))"

text \<open>\<open>get_llm_response_emotion\<close> (lines 164-171): one policy decision, then one learning
  cycle with its own draws.\<close>

definition get_llm_response_emotion ::
  "string \<Rightarrow> real \<Rightarrow> int \<Rightarrow> real \<Rightarrow> real \<Rightarrow> int \<Rightarrow> 'o handler
     \<Rightarrow> error + string list \<times> 'o handler" where
  "get_llm_response_emotion user_prompt_emotion draw1 pick1 feedback draw2 pick2 h =
     bind_err (choose_emotions_based_on_initiative draw1 pick1 h) (\<lambda>emotions_to_use.
     bind_err (learn_from_inference feedback draw2 pick2 h) (\<lambda>h'.
     Inr (emotions_to_use, h')))"

subsection \<open>Training (\<open>replay\<close>, lines 138-158)\<close>

text \<open>\<open>torch.FloatTensor(s)\<close> of \<open>None\<close> is a TypeError.\<close>

definition float_tensor :: "state option \<Rightarrow> error + real list" where
  "float_tensor s = (case s of None \<Rightarrow> Inl TypeError | Some v \<Rightarrow> Inr v)"

text \<open>Lines 144-147: the target of one transition.\<close>

definition td_target :: "DQN \<Rightarrow> real \<Rightarrow> real \<Rightarrow> state option \<Rightarrow> bool \<Rightarrow> error + real" where
  "td_target net g reward next_st done =
     (if \<not> done then
        bind_err (float_tensor next_st) (\<lambda>next_state_tensor.
        bind_err (forward net next_state_tensor) (\<lambda>q.
        bind_err (torch_max q) (\<lambda>m. Inr (reward + g * m))))
      else Inr reward)"

text \<open>\<open>target_f[0][action] = target\<close>: torch accepts the indices from \<open>-n\<close> to \<open>n - 1\<close>.\<close>

definition set_item :: "real list \<Rightarrow> int \<Rightarrow> real \<Rightarrow> error + real list" where
  "set_item t i v =
     (let n = int (length t); j = (if i < 0 then n + i else i)
      in if 0 \<le> j \<and> j < n then Inr (t[nat j := v]) else Inl IndexError)"

text \<open>
  Lines 143-155, one pass of the loop body. \<open>fit opt net x target_f\<close> stands for
  \<open>zero_grad\<close>, the MSE loss between \<open>target_f\<close> and \<open>model(x)\<close>, \<open>backward\<close> and the Adam
  step: it returns the new optimiser state and the new network.
\<close>

definition train_one ::
  "('o \<Rightarrow> DQN \<Rightarrow> real list \<Rightarrow> real list \<Rightarrow> 'o \<times> DQN) \<Rightarrow> real \<Rightarrow> 'o \<times> DQN \<Rightarrow> transition
     \<Rightarrow> error + 'o \<times> DQN" where
  "train_one fit g on tr =
     (case on of (opt, net) \<Rightarrow>
      case tr of (st, action, reward, next_st, done) \<Rightarrow>
        bind_err (td_target net g reward next_st done) (\<lambda>target.
        bind_err (float_tensor st) (\<lambda>state_tensor.
        bind_err (forward net state_tensor) (\<lambda>target_f.
        bind_err (set_item target_f action target) (\<lambda>target_f'.
        Inr (fit opt net state_tensor target_f'))))))"

fun train_loop ::
  "('o \<Rightarrow> DQN \<Rightarrow> real list \<Rightarrow> real list \<Rightarrow> 'o \<times> DQN) \<Rightarrow> real \<Rightarrow> 'o \<times> DQN \<Rightarrow> transition list
     \<Rightarrow> error + 'o \<times> DQN" where
  "train_loop fit g on [] = Inr on"
| "train_loop fit g on (tr # trs) =
     (case train_one fit g on tr of Inl e \<Rightarrow> Inl e | Inr on' \<Rightarrow> train_loop fit g on' trs)"

text \<open>Lines 157-158.\<close>

definition decay_epsilon :: "'o handler \<Rightarrow> 'o handler" where
  "decay_epsilon h =
     (if epsilon h > epsilon_min h then h\<lparr>epsilon := epsilon h * epsilon_decay h\<rparr> else h)"

text \<open>
  \<open>replay\<close>. \<open>minibatch\<close> is the list \<open>random.sample(self.memory, batch_size)\<close> returns, which
  raises ValueError for a negative size.
\<close>

definition replay ::
  "('o \<Rightarrow> DQN \<Rightarrow> real list \<Rightarrow> real list \<Rightarrow> 'o \<times> DQN) \<Rightarrow> transition list \<Rightarrow> int \<Rightarrow> 'o handler
     \<Rightarrow> error + 'o handler" where
  "replay fit minibatch batch_size h =
     (if int (length (memory h)) < batch_size then Inr h
      else if batch_size < 0 then Inl ValueError
      else bind_err (train_loop fit (gamma h) (optimizer h, model h) minibatch) (\<lambda>on.
           Inr (decay_epsilon (h\<lparr>optimizer := fst on, model := snd on\<rparr>))))"

section \<open>Notions used to state the properties\<close>

text \<open>
  What the constructor establishes and every method keeps: the emotion list has no
  duplicates and both dictionaries hold exactly its members, in its order.
\<close>

definition handler_inv :: "'o handler \<Rightarrow> bool" where
  "handler_inv h \<longleftrightarrow>
     distinct (emotions h) \<and> map fst (emotion_reward_map h) = emotions h
       \<and> map fst (initiative_map h) = emotions h"

text \<open>Pushing one transition, and a sequence of them, through \<open>remember\<close>.\<close>

definition push :: "transition \<Rightarrow> 'o handler \<Rightarrow> 'o handler" where
  "push tr h = (case tr of (s, a, r, n, d) \<Rightarrow> remember s a r n d h)"

definition pushes :: "transition list \<Rightarrow> 'o handler \<Rightarrow> 'o handler" where
  "pushes trs h = fold push trs h"

text \<open>
  The ranking the specification describes: a higher initiative comes first, and among
  equal initiatives the emotion that is earlier in the emotion list.
\<close>

fun index_in :: "'a list \<Rightarrow> 'a \<Rightarrow> nat" where
  "index_in [] x = 0"
| "index_in (y # ys) x = (if x = y then 0 else Suc (index_in ys x))"

definition outranks :: "string list \<Rightarrow> string \<times> real \<Rightarrow> string \<times> real \<Rightarrow> bool" where
  "outranks order a b \<longleftrightarrow>
     snd a > snd b \<or> (snd a = snd b \<and> index_in order (fst a) < index_in order (fst b))"

text \<open>\<open>r\<close> is the first position of \<open>t\<close> that holds its maximum.\<close>

definition first_max :: "real list \<Rightarrow> nat \<Rightarrow> bool" where
  "first_max t r \<longleftrightarrow> r < length t \<and> t ! r = Max (set t) \<and> (\<forall>j<r. t ! j < t ! r)"

text \<open>The bootstrapped target in the specification's words, over the scores of the next
  state.\<close>

definition spec_target :: "real \<Rightarrow> real list \<Rightarrow> real \<Rightarrow> bool \<Rightarrow> real" where
  "spec_target g next_scores reward terminal =
     (if terminal then reward else reward + g * Max (set next_scores))"

text \<open>\<open>n\<close> calls of \<open>replay\<close> in a row, each with the same sampled batch.\<close>

primrec replay_times ::
  "('o \<Rightarrow> DQN \<Rightarrow> real list \<Rightarrow> real list \<Rightarrow> 'o \<times> DQN) \<Rightarrow> transition list \<Rightarrow> int \<Rightarrow> nat
     \<Rightarrow> 'o handler \<Rightarrow> error + 'o handler" where
  "replay_times fit minibatch batch_size 0 h = Inr h"
| "replay_times fit minibatch batch_size (Suc n) h =
     bind_err (replay_times fit minibatch batch_size n h) (replay fit minibatch batch_size)"

subsection \<open>Concrete inputs\<close>

text \<open>
  A small network of the right input and output widths (the model does not fix the
  hidden width): on a state \<open>x\<close> with a non-negative sum it scores the three actions
  \<open>1\<close>, \<open>sum x\<close>, \<open>1\<close>.
\<close>

definition example_net :: DQN where
  "example_net =
     \<lparr>fc1 = \<lparr>weight = [replicate 14 1, replicate 14 0], bias = [0, 1]\<rparr>,
      fc2 = \<lparr>weight = [[1, 0], [0, 1]], bias = [0, 0]\<rparr>,
      fc3 = \<lparr>weight = [[0, 1], [1, 0], [0, 1]], bias = [0, 0, 0]\<rparr>\<rparr>"

text \<open>The handler right after \<open>EmotionHandler()\<close> with the default arguments.\<close>

definition fresh_handler :: "unit handler" where
  "fresh_handler = init_fields (default_args example_net ())"

text \<open>The initiative values of the specification's example.\<close>

definition example_initiative :: "real dict" where
  "example_initiative =
     [(''anger'', 3), (''disgust'', 1), (''fear'', 3), (''joy'', 5), (''neutral'', 1),
      (''sadness'', 1), (''surprise'', 1)]"

definition example_handler :: "unit handler" where
  "example_handler = fresh_handler\<lparr>initiative_map := example_initiative\<rparr>"

text \<open>An optimiser step that leaves the parameters as they are.\<close>

definition frozen_fit :: "unit \<Rightarrow> DQN \<Rightarrow> real list \<Rightarrow> real list \<Rightarrow> unit \<times> DQN" where
  "frozen_fit opt net x target_f = (opt, net)"

text \<open>
  The fresh handler after one \<open>learn_from_inference\<close> with feedback \<open>1/2\<close>, an exploring
  draw and the random action 2, and the transition that call stores.
\<close>

definition first_transition :: transition where
  "first_transition =
     (Some [1, 1, 1, 1, 3 / 2, 1, 1, 1, 1, 1, 1, 11 / 10, 1, 1], 2, 1 / 2,
      Some [1, 1, 1, 1, 1, 1, 1, 1, 1, 1, 1, 1, 1, 1], False)"

definition experienced_handler :: "unit handler" where
  "experienced_handler =
     fresh_handler
       \<lparr>emotion_reward_map := dict_set (emotion_reward_map fresh_handler) ''neutral'' (3 / 2),
        initiative_map := dict_set (initiative_map fresh_handler) ''neutral'' (11 / 10),
        previous_state := Some [1, 1, 1, 1, 1, 1, 1, 1, 1, 1, 1, 1, 1, 1],
        memory := [first_transition]\<rparr>"

text \<open>An optimiser step that moves the output biases to the target vector, so that every
  step changes the scores, and the networks it produces from the example network.\<close>

definition bias_fit :: "unit \<Rightarrow> DQN \<Rightarrow> real list \<Rightarrow> real list \<Rightarrow> unit \<times> DQN" where
  "bias_fit opt net x target_f = (opt, net\<lparr>fc3 := (fc3 net)\<lparr>bias := target_f\<rparr>\<rparr>)"

definition biased_net :: "real list \<Rightarrow> DQN" where
  "biased_net b = example_net\<lparr>fc3 := (fc3 example_net)\<lparr>bias := b\<rparr>\<rparr>"

text \<open>A batch of three transitions, the last one terminal, and a handler whose buffer
  holds them.\<close>

definition example_batch :: "transition list" where
  "example_batch =
     [first_transition,
      (Some [1, 1, 1, 1, 1, 1, 1, 1, 1, 1, 1, 1, 1, 1], 0, 1 / 4,
       Some [1, 1, 1, 1, 1, 1, 1, 1, 1, 1, 1, 1, 1, 1], False),
      (Some [1, 1, 1, 1, 1, 1, 1, 1, 1, 1, 1, 1, 1, 1], 1, - 1, None, True)]"

definition batch_handler :: "unit handler" where
  "batch_handler = experienced_handler\<lparr>memory := example_batch\<rparr>"

section \<open>Properties\<close>

subsection \<open>Helper facts\<close>

lemma bind_err_Inr [simp]: "bind_err (Inr x) f = f x"
  by (simp add: bind_err_def)

lemma bind_err_Inl [simp]: "bind_err (Inl e) f = Inl e"
  by (simp add: bind_err_def)

lemma bind_err_eq_Inr: "bind_err r f = Inr y \<longleftrightarrow> (\<exists>x. r = Inr x \<and> f x = Inr y)"
  by (cases r) simp_all

lemmas fresh_defs = fresh_handler_def init_fields_def default_args_def dict_comprehension_def
  module_emotions_def module_state_size_def module_action_size_def dict_set_def

lemmas experienced_defs = experienced_handler_def fresh_handler_def init_fields_def
  default_args_def

subsection \<open>Dictionaries and the handler invariant\<close>

lemma map_fst_update:
  "map fst (AList.update k v d) = (if k \<in> fst ` set d then map fst d else map fst d @ [k])"
  by (induction d) auto

lemma dict_comprehension_keys: "distinct ks \<Longrightarrow> map fst (dict_comprehension ks v) = ks"
proof -
  have "distinct (map fst d @ ks) \<Longrightarrow>
      map fst (foldl (\<lambda>d k. dict_set d k v) d ks) = map fst d @ ks" for d
  proof (induction ks arbitrary: d)
    case Nil
    then show ?case by simp
  next
    case (Cons k ks)
    have "k \<notin> fst ` set d" using Cons.prems by auto
    then have m: "map fst (dict_set d k v) = map fst d @ [k]"
      by (simp add: dict_set_def map_fst_update)
    have "distinct (map fst (dict_set d k v) @ ks)" using Cons.prems m by auto
    from Cons.IH[OF this] show ?case by (simp add: m)
  qed
  from this[of "[]"] show "distinct ks \<Longrightarrow> ?thesis"
    by (simp add: dict_comprehension_def)
qed

lemma init_fields_inv: "distinct (arg_emotions a) \<Longrightarrow> handler_inv (init_fields a)"
  by (simp add: handler_inv_def init_fields_def dict_comprehension_keys)

lemma fresh_inv: "handler_inv fresh_handler"
  unfolding fresh_handler_def
  by (rule init_fields_inv) (simp add: default_args_def module_emotions_def)

lemma fresh_emotions: "emotions fresh_handler = module_emotions"
  by (simp add: fresh_handler_def init_fields_def default_args_def)

lemma fresh_state: "get_current_state fresh_handler = [1, 1, 1, 1, 1, 1, 1, 1, 1, 1, 1, 1, 1, 1]"
  by (simp add: get_current_state_def fresh_defs)

lemma dict_add_ok:
  assumes "k \<in> fst ` set d"
  shows "\<exists>old. map_of d k = Some old \<and> dict_add d k v = Inr (AList.update k (old + v) d)"
proof -
  from assms obtain old where "map_of d k = Some old"
    by (metis domD dom_map_of_conv_image_fst)
  then show ?thesis by (simp add: dict_add_def dict_get_def dict_set_def)
qed

lemma dict_add_keys:
  assumes "dict_add d e v = Inr d'"
  shows "map fst d' = map fst d"
proof -
  from assms obtain old where o: "map_of d e = Some old"
    and d': "d' = AList.update e (old + v) d"
    by (auto simp: dict_add_def dict_get_def dict_set_def bind_err_eq_Inr split: option.splits)
  from o have "e \<in> fst ` set d"
    by (metis domI dom_map_of_conv_image_fst)
  then show ?thesis by (simp add: d' map_fst_update)
qed

lemma update_preserves_inv:
  assumes "handler_inv h" and "update_emotion_and_initiative e f h = Inr h'"
  shows "handler_inv h'"
proof -
  from assms(2) obtain rm im where
    rm: "dict_add (emotion_reward_map h) e f = Inr rm"
    and im: "dict_add (initiative_map h) e 0.1 = Inr im"
    and h': "h' = h\<lparr>previous_state := Some (get_current_state h),
                    emotion_reward_map := rm, initiative_map := im\<rparr>"
    by (auto simp: update_emotion_and_initiative_def Let_def bind_err_eq_Inr)
  from dict_add_keys[OF rm] dict_add_keys[OF im] assms(1) show ?thesis
    by (simp add: handler_inv_def h')
qed

subsection \<open>The statistics update\<close>

text \<open>
  The part of the statistics update that does not depend on how its two sums are
  rounded: for an emotion of the set the update returns normally, the entries of every
  other emotion and the order of the keys are what they were, and \<open>previous_state\<close> is
  the state before the update.
\<close>

lemma update_emotion_and_initiative_frame:
  assumes "handler_inv h" and "e \<in> set (emotions h)"
  shows "\<exists>h'. update_emotion_and_initiative e f h = Inr h'
           \<and> (\<forall>e'. e' \<noteq> e \<longrightarrow>
                 map_of (emotion_reward_map h') e' = map_of (emotion_reward_map h) e'
               \<and> map_of (initiative_map h') e' = map_of (initiative_map h) e')
           \<and> map fst (emotion_reward_map h') = map fst (emotion_reward_map h)
           \<and> map fst (initiative_map h') = map fst (initiative_map h)
           \<and> previous_state h' = Some (get_current_state h)"
proof -
  have kr: "e \<in> fst ` set (emotion_reward_map h)" and ki: "e \<in> fst ` set (initiative_map h)"
    using assms by (auto simp: handler_inv_def simp flip: set_map)
  from dict_add_ok[OF kr, of f] obtain r where
    r: "dict_add (emotion_reward_map h) e f = Inr (AList.update e (r + f) (emotion_reward_map h))"
    by blast
  from dict_add_ok[OF ki, of "0.1"] obtain i where
    i: "dict_add (initiative_map h) e 0.1 = Inr (AList.update e (i + 0.1) (initiative_map h))"
    by blast
  show ?thesis using r i kr ki
    by (simp add: update_emotion_and_initiative_def Let_def update_conv' map_fst_update)
qed

subsection \<open>Training with too few experiences\<close>

text \<open>
  C7. When the replay buffer holds fewer transitions than \<open>batch_size\<close>, \<open>replay\<close> returns
  normally and the handler is unchanged: network, optimiser state, epsilon and buffer
  are what they were, whatever the sampled batch and the optimiser would have been.
\<close>

theorem replay_too_few_noop:
  assumes "int (length (memory h)) < batch_size"
  shows "replay fit minibatch batch_size h = Inr h"
  using assms by (simp add: replay_def)

theorem replay_too_few_noop_witness:
  "int (length (memory fresh_handler)) < 32
   \<and> replay frozen_fit [] 32 fresh_handler = Inr fresh_handler"
proof -
  have l: "int (length (memory fresh_handler)) < 32"
    by (simp add: fresh_handler_def init_fields_def)
  from replay_too_few_noop[OF l] l show ?thesis by simp
qed

subsection \<open>The replay buffer\<close>

lemma memory_push: "memory (push tr h) = deque_append (memory h) tr"
  by (cases tr) (simp add: push_def remember_def)

lemma memory_pushes: "memory (pushes trs h) = fold (\<lambda>x q. deque_append q x) trs (memory h)"
  unfolding pushes_def
  by (induction trs arbitrary: h) (simp_all add: memory_push)

lemma deque_fold:
  "length q \<le> maxlen \<Longrightarrow>
     fold (\<lambda>x q. deque_append q x) xs q = drop (length (q @ xs) - maxlen) (q @ xs)"
proof (induction xs arbitrary: q)
  case Nil
  then show ?case by simp
next
  case (Cons x xs)
  show ?case
  proof (cases "length q = maxlen")
    case True
    then have q: "q \<noteq> []" by (auto simp: maxlen_def)
    have l: "length (tl q @ [x]) \<le> maxlen" using True q by (cases q) auto
    have "fold (\<lambda>x q. deque_append q x) (x # xs) q =
        fold (\<lambda>x q. deque_append q x) xs (tl q @ [x])"
      using True by (simp add: deque_append_def)
    also have "\<dots> = drop (length ((tl q @ [x]) @ xs) - maxlen) ((tl q @ [x]) @ xs)"
      by (rule Cons.IH[OF l])
    also have "\<dots> = drop (length (q @ x # xs) - maxlen) (q @ x # xs)"
      using True q by (cases q) (auto simp: drop_Cons')
    finally show ?thesis .
  next
    case False
    with Cons.prems have lt: "length q < maxlen" by simp
    then have l: "length (q @ [x]) \<le> maxlen" by simp
    have "fold (\<lambda>x q. deque_append q x) (x # xs) q =
        fold (\<lambda>x q. deque_append q x) xs (q @ [x])"
      using lt by (simp add: deque_append_def)
    also have "\<dots> = drop (length ((q @ [x]) @ xs) - maxlen) ((q @ [x]) @ xs)"
      by (rule Cons.IH[OF l])
    finally show ?thesis by simp
  qed
qed

text \<open>
  C8. The capacity is 4000. From a buffer within capacity, any sequence of pushes leaves
  a buffer within capacity: it holds the last 4000 of the old contents followed by the
  pushed transitions, in order. A push on a full buffer drops the oldest entry and
  appends the new one; 4001 pushes on an empty buffer leave all but the first, in order.
\<close>

theorem replay_buffer_bounded_fifo:
  assumes "length (memory h) \<le> maxlen"
  shows "maxlen = 4000
       \<and> length (memory (pushes trs h)) \<le> maxlen
       \<and> memory (pushes trs h) = drop (length (memory h @ trs) - maxlen) (memory h @ trs)
       \<and> (length (memory h) = maxlen \<longrightarrow> memory (push tr h) = tl (memory h) @ [tr])
       \<and> (memory h = [] \<and> length trs = maxlen + 1 \<longrightarrow> memory (pushes trs h) = tl trs)"
proof -
  have d: "memory (pushes trs h) = drop (length (memory h @ trs) - maxlen) (memory h @ trs)"
    by (simp only: memory_pushes deque_fold[OF assms])
  have "length (memory (pushes trs h)) \<le> maxlen"
    unfolding d by simp
  moreover have "length (memory h) = maxlen \<longrightarrow> memory (push tr h) = tl (memory h) @ [tr]"
    by (simp add: memory_push deque_append_def)
  moreover have "memory h = [] \<and> length trs = maxlen + 1 \<longrightarrow> memory (pushes trs h) = tl trs"
    unfolding d by (auto simp: drop_Suc)
  ultimately show ?thesis using d by (simp add: maxlen_def)
qed

theorem replay_buffer_bounded_fifo_witness:
  "length (memory fresh_handler) \<le> maxlen
   \<and> length (memory (fresh_handler\<lparr>memory := replicate 4000 first_transition\<rparr>)) = maxlen
   \<and> memory (push (None, 0, 0, None, True)
        (fresh_handler\<lparr>memory := replicate 4000 first_transition\<rparr>)) =
       replicate 3999 first_transition @ [(None, 0, 0, None, True)]
   \<and> memory fresh_handler = []
   \<and> length ((None, 0, 0, None, True) # replicate 4000 first_transition) = maxlen + 1
   \<and> memory (pushes ((None, 0, 0, None, True) # replicate 4000 first_transition) fresh_handler) =
       replicate 4000 first_transition"
proof -
  let ?full = "fresh_handler\<lparr>memory := replicate 4000 first_transition\<rparr>"
  let ?t = "(None, 0, 0, None, True) :: transition"
  let ?trs = "?t # replicate 4000 first_transition"
  have e: "memory fresh_handler = []"
    by (simp add: fresh_handler_def init_fields_def)
  have a: "length (memory fresh_handler) \<le> maxlen"
    by (simp add: e)
  have f: "length (memory ?full) = maxlen"
    by (simp add: maxlen_def)
  then have b: "length (memory ?full) \<le> maxlen"
    by simp
  have l: "length ?trs = maxlen + 1"
    by (simp add: maxlen_def)
  have "memory fresh_handler = [] \<and> length ?trs = maxlen + 1 \<longrightarrow>
      memory (pushes ?trs fresh_handler) = tl ?trs"
    by (rule replay_buffer_bounded_fifo[OF a, of ?trs,
          THEN conjunct2, THEN conjunct2, THEN conjunct2, THEN conjunct2])
  with e l have p: "memory (pushes ?trs fresh_handler) = replicate 4000 first_transition"
    by simp
  have "length (memory ?full) = maxlen \<longrightarrow> memory (push ?t ?full) = tl (memory ?full) @ [?t]"
    by (rule replay_buffer_bounded_fifo[OF b, of "[]" ?t,
          THEN conjunct2, THEN conjunct2, THEN conjunct2, THEN conjunct1])
  with f have q: "memory (push ?t ?full) = replicate 3999 first_transition @ [?t]"
    by simp
  from a f q e l p show ?thesis by (intro conjI)
qed

subsection \<open>The singleton\<close>

lemma first_construction:
  assumes "cls_instance w = None"
  shows "EmotionHandler a w =
     (next_ref w,
      w\<lparr>cls_instance := Some (next_ref w),
        heap := AList.update (next_ref w) (Attrs (init_fields a))
                  (AList.update (next_ref w) Bare (heap w)),
        next_ref := Suc (next_ref w)\<rparr>)"
  using assms
  by (simp add: EmotionHandler_def new_instance_def init_instance_def is_initialized_def
      Let_def update_conv')

text \<open>
  C9. When the class already holds an initialised instance, \<open>EmotionHandler(...)\<close> returns
  the reference of that instance and the whole store is unchanged, so every field of the
  instance (hyperparameters, both dictionaries, the buffer, the network and the
  optimiser state) is what it was, whatever arguments the call passes.
\<close>

theorem second_construction_ignored:
  assumes "cls_instance w = Some r" and "map_of (heap w) r = Some (Attrs h)"
    and "initialized h"
  shows "EmotionHandler a w = (r, w)"
  using assms
  by (simp add: EmotionHandler_def new_instance_def init_instance_def is_initialized_def)

theorem second_construction_ignored_witness:
  "(case EmotionHandler (default_args example_net ()) empty_world of
      (r, w) \<Rightarrow>
        cls_instance w = Some r
        \<and> map_of (heap w) r = Some (Attrs (init_fields (default_args example_net ())))
        \<and> initialized (init_fields (default_args example_net ()))
        \<and> EmotionHandler
            ((default_args example_net ())
               \<lparr>arg_epsilon := 0, arg_gamma := 1 / 2, arg_emotions := []\<rparr>)
            w = (r, w))"
proof -
  obtain r w where
    c: "EmotionHandler (default_args example_net ()) (empty_world :: unit world) = (r, w)"
    by (cases "EmotionHandler (default_args example_net ()) (empty_world :: unit world)")
  from c have i: "cls_instance w = Some r"
    and h: "map_of (heap w) r = Some (Attrs (init_fields (default_args example_net ())))"
    by (auto simp: first_construction empty_world_def)
  have t: "initialized (init_fields (default_args example_net ()))"
    by (simp add: init_fields_def)
  from second_construction_ignored[OF i h t] c i h t show ?thesis by simp
qed

subsection \<open>Ranking emotions by initiative\<close>

lemma sorted_wrt_index_in:
  "distinct (map fst xs) \<Longrightarrow>
     sorted_wrt (\<lambda>a b. index_in (map fst xs) (fst a) < index_in (map fst xs) (fst b)) xs"
proof (induction xs)
  case Nil
  then show ?case by simp
next
  case (Cons a xs)
  have ne: "fst b \<noteq> fst a" if "b \<in> set xs" for b
  proof
    assume "fst b = fst a"
    then have "fst a \<in> fst ` set xs" using that by (metis imageI)
    then show False using Cons.prems by simp
  qed
  have "sorted_wrt (\<lambda>a b. index_in (map fst xs) (fst a) < index_in (map fst xs) (fst b)) xs"
    using Cons by simp
  then have "sorted_wrt (\<lambda>x y. index_in (map fst (a # xs)) (fst x) < index_in (map fst (a # xs)) (fst y)) xs"
    by (rule sorted_wrt_mono_rel[rotated]) (simp add: ne)
  then show ?case by (simp add: ne)
qed

lemma sorted_wrt_ties:
  fixes f :: "'a \<Rightarrow> 'b::linorder"
  assumes "sorted_wrt (\<lambda>a b. f a \<ge> f b) xs"
    and "\<And>k. sorted_wrt Q (filter (\<lambda>x. f x = k) xs)"
  shows "sorted_wrt (\<lambda>a b. f a > f b \<or> (f a = f b \<and> Q a b)) xs"
  using assms
proof (induction xs)
  case Nil
  then show ?case by simp
next
  case (Cons a xs)
  have tl: "sorted_wrt Q (filter (\<lambda>x. f x = k) xs)" for k
    using Cons.prems(2)[of k] by (cases "f a = k") simp_all
  have hd: "f a > f b \<or> (f a = f b \<and> Q a b)" if b: "b \<in> set xs" for b
  proof (cases "f a = f b")
    case True
    from Cons.prems(2)[of "f a"] b True show ?thesis by auto
  next
    case False
    with Cons.prems(1) b show ?thesis by auto
  qed
  from Cons.IH[OF _ tl] Cons.prems(1) hd show ?case by simp
qed

lemma filter_sorted_reverse:
  "filter (\<lambda>x. snd x = k) (sorted_reverse xs) = filter (\<lambda>x. snd x = k) xs"
  by (simp add: sorted_reverse_def sort_key_stable flip: rev_filter)

lemma sorted_reverse_desc: "sorted_wrt (\<lambda>a b. snd a \<ge> snd b) (sorted_reverse xs)"
proof -
  have "sorted (map snd (sort_key snd (rev xs)))" by simp
  then have "sorted_wrt (\<lambda>a b. snd a \<le> snd b) (sort_key snd (rev xs))"
    by (simp add: sorted_map)
  then show ?thesis by (simp add: sorted_reverse_def sorted_wrt_rev)
qed

lemma set_sorted_reverse [simp]: "set (sorted_reverse xs) = set xs"
  by (simp add: sorted_reverse_def)

lemma length_sorted_reverse [simp]: "length (sorted_reverse xs) = length xs"
  by (simp add: sorted_reverse_def)


lemma mset_sorted_reverse: "mset (sorted_reverse xs) = mset xs"
  by (simp add: sorted_reverse_def)

lemma sorted_reverse_ranked:
  assumes "distinct (map fst xs)"
  shows "sorted_wrt (outranks (map fst xs)) (sorted_reverse xs)"
proof -
  let ?Q = "\<lambda>a b. index_in (map fst xs) (fst a) < index_in (map fst xs) (fst b)"
  have "sorted_wrt ?Q (filter (\<lambda>x. snd x = k) (sorted_reverse xs))" for k
    unfolding filter_sorted_reverse
    by (rule sorted_wrt_filter) (rule sorted_wrt_index_in[OF assms])
  from sorted_wrt_ties[where f = snd and Q = ?Q, OF sorted_reverse_desc this]
  show ?thesis by (simp add: outranks_def[abs_def])
qed

lemma map_action_take:
  assumes "3 \<le> length (initiative_map h)"
  shows "map_action_to_emotions action h =
     Inr (map fst (take (if action = 0 then 1 else if action = 1 then 2 else 3)
        (sorted_reverse (initiative_map h))))"
proof -
  obtain a b c r where r: "sorted_reverse (initiative_map h) = a # b # c # r"
    using assms length_sorted_reverse[of "initiative_map h"]
    by (metis Suc_le_length_iff numeral_3_eq_3)
  show ?thesis
    by (simp add: map_action_to_emotions_def r item_key_def)
qed

lemma example_inv: "handler_inv example_handler"
  using fresh_inv
  by (simp add: handler_inv_def example_handler_def example_initiative_def fresh_emotions
      module_emotions_def)

lemma example_actions:
  "map_action_to_emotions 0 example_handler = Inr [''joy'']"
  "map_action_to_emotions 1 example_handler = Inr [''joy'', ''anger'']"
  "map_action_to_emotions 2 example_handler = Inr [''joy'', ''anger'', ''fear'']"
  by (simp_all add: map_action_to_emotions_def sorted_reverse_def example_handler_def
      example_initiative_def item_key_def sort_key_def)

text \<open>
  C4. For a handler whose initiative dictionary holds the emotion set (at least three
  emotions), the list \<open>map_action_to_emotions\<close> sorts is a rearrangement of the
  dictionary's items in which every item outranks all later ones: higher initiative
  first, equal initiatives in emotion-list order. Action 0 returns the first key of that
  list, action 1 the first two, action 2 the first three. With \<open>joy = 5\<close>,
  \<open>anger = fear = 3\<close> and the others 1 the results are \<open>[joy]\<close>, \<open>[joy, anger]\<close> and
  \<open>[joy, anger, fear]\<close>.
\<close>

theorem map_action_to_emotions_ranking:
  assumes "handler_inv h" and "3 \<le> length (emotions h)"
  shows "mset (sorted_reverse (initiative_map h)) = mset (initiative_map h)
       \<and> sorted_wrt (outranks (emotions h)) (sorted_reverse (initiative_map h))
       \<and> map_action_to_emotions 0 h = Inr (map fst (take 1 (sorted_reverse (initiative_map h))))
       \<and> map_action_to_emotions 1 h = Inr (map fst (take 2 (sorted_reverse (initiative_map h))))
       \<and> map_action_to_emotions 2 h = Inr (map fst (take 3 (sorted_reverse (initiative_map h))))
       \<and> map_action_to_emotions 0 example_handler = Inr [''joy'']
       \<and> map_action_to_emotions 1 example_handler = Inr [''joy'', ''anger'']
       \<and> map_action_to_emotions 2 example_handler = Inr [''joy'', ''anger'', ''fear'']"
proof -
  have keys: "map fst (initiative_map h) = emotions h" and d: "distinct (emotions h)"
    using assms(1) by (simp_all add: handler_inv_def)
  have len: "3 \<le> length (initiative_map h)"
    using assms(2) keys by (metis length_map)
  have "sorted_wrt (outranks (map fst (initiative_map h))) (sorted_reverse (initiative_map h))"
    by (rule sorted_reverse_ranked) (simp add: keys d)
  then have r: "sorted_wrt (outranks (emotions h)) (sorted_reverse (initiative_map h))"
    by (simp only: keys)
  show ?thesis
    using r map_action_take[OF len, of 0] map_action_take[OF len, of 1]
      map_action_take[OF len, of 2]
    by (simp add: mset_sorted_reverse example_actions)
qed

theorem map_action_to_emotions_ranking_witness:
  "handler_inv example_handler \<and> 3 \<le> length (emotions example_handler)
   \<and> sorted_reverse (initiative_map example_handler) =
       [(''joy'', 5), (''anger'', 3), (''fear'', 3), (''disgust'', 1), (''neutral'', 1),
        (''sadness'', 1), (''surprise'', 1)]
   \<and> sorted_wrt (outranks (emotions example_handler))
       [(''joy'', 5), (''anger'', 3), (''fear'', 3), (''disgust'', 1), (''neutral'', 1),
        (''sadness'', 1), (''surprise'', 1)]
   \<and> map_action_to_emotions 2 example_handler = Inr [''joy'', ''anger'', ''fear'']"
proof -
  have l: "3 \<le> length (emotions example_handler)"
    by (simp add: example_handler_def fresh_emotions module_emotions_def)
  have s: "sorted_reverse (initiative_map example_handler) =
       [(''joy'', 5), (''anger'', 3), (''fear'', 3), (''disgust'', 1), (''neutral'', 1),
        (''sadness'', 1), (''surprise'', 1)]"
    by (simp add: sorted_reverse_def example_handler_def example_initiative_def sort_key_def)
  from map_action_to_emotions_ranking[OF example_inv l] show ?thesis
    using example_inv l by (simp add: s)
qed



subsection \<open>The example network and the first learning cycle\<close>

lemma learn_fresh: "learn_from_inference (1 / 2) (3 / 10) 2 fresh_handler = Inr experienced_handler"
  by (simp add: learn_from_inference_def update_emotion_and_initiative_def dict_add_def dict_get_def
      act_def randrange_def remember_def deque_append_def maxlen_def get_current_state_def
      experienced_handler_def first_transition_def fresh_defs Let_def)


lemma fwd_fresh: "forward example_net [1, 1, 1, 1, 1, 1, 1, 1, 1, 1, 1, 1, 1, 1] = Inr [1, 14, 1]"
  by (simp add: forward_def apply_linear_def example_net_def relu_def dot_def numeral_eq_Suc)

lemma fwd_post: "forward example_net [1, 1, 1, 1, 3 / 2, 1, 1, 1, 1, 1, 1, 11 / 10, 1, 1] = Inr [1, 73 / 5, 1]"
  by (simp add: forward_def apply_linear_def example_net_def relu_def dot_def numeral_eq_Suc)

lemma train_first:
  "train_one frozen_fit (19 / 20) ((), example_net) first_transition = Inr ((), example_net)"
  by (simp add: train_one_def td_target_def float_tensor_def first_transition_def fwd_fresh fwd_post
      torch_max_def set_item_def frozen_fit_def)

lemma experienced_fields:
  "memory experienced_handler = [first_transition]"
  "gamma experienced_handler = 19 / 20"
  "model experienced_handler = example_net"
  "optimizer experienced_handler = ()"
  "epsilon_min experienced_handler = 1 / 100"
  "epsilon_decay experienced_handler = 199 / 200"
  "epsilon experienced_handler = 1"
  by (simp_all add: experienced_defs)

lemma learn_from_inference_stores:
  assumes "learn_from_inference feedback draw pick h = Inr h'"
  shows "\<exists>action. memory h' =
           deque_append (memory h)
             (Some (get_current_state h'), action, feedback, Some (get_current_state h), False)"
proof -
  from assms obtain h1 action where
    u: "update_emotion_and_initiative (current_user_emotion h) feedback h = Inr h1"
    and h': "h' = remember (Some (get_current_state h1)) action feedback (previous_state h1) False h1"
    by (auto simp: learn_from_inference_def Let_def bind_err_eq_Inr)
  from u have p: "previous_state h1 = Some (get_current_state h)" and m: "memory h1 = memory h"
    by (auto simp: update_emotion_and_initiative_def Let_def bind_err_eq_Inr)
  have s: "get_current_state h' = get_current_state h1"
    by (simp add: h' remember_def get_current_state_def)
  show ?thesis
    by (rule exI[of _ action]) (simp add: h' remember_def p m get_current_state_def)
qed

text \<open>
  C1. On the fresh handler, the learning cycle with feedback \<open>1/2\<close> stores one
  transition. Its first slot, which \<open>remember\<close> and \<open>replay\<close> read as the state, holds
  the state after the statistics update; its fourth slot, read as the next state, holds
  the state before the update. The specification's order is the opposite one.
\<close>

theorem learn_from_inference_state_slots:
  "learn_from_inference (1 / 2) (3 / 10) 2 fresh_handler = Inr experienced_handler
   \<and> get_current_state fresh_handler = [1, 1, 1, 1, 1, 1, 1, 1, 1, 1, 1, 1, 1, 1]
   \<and> get_current_state experienced_handler =
       [1, 1, 1, 1, 3 / 2, 1, 1, 1, 1, 1, 1, 11 / 10, 1, 1]
   \<and> memory experienced_handler =
       [(Some (get_current_state experienced_handler), 2, 1 / 2,
         Some (get_current_state fresh_handler), False)]"
  by (simp add: learn_fresh fresh_state)
     (simp add: experienced_handler_def first_transition_def get_current_state_def fresh_defs)

subsection \<open>The training target\<close>

lemma torch_max_Inr: "torch_max q = Inr m \<longleftrightarrow> q \<noteq> [] \<and> m = Max (set q)"
proof (cases q)
  case Nil
  then show ?thesis by (simp add: torch_max_def)
next
  case (Cons v vs)
  have "fold max vs v = Max (set (v # vs))"
    by (rule Max.set_eq_fold[symmetric])
  then show ?thesis using Cons by (auto simp: torch_max_def)
qed

lemma td_target_terminal: "td_target net g reward next_st True = Inr reward"
  by (simp add: td_target_def)

lemma td_target_bootstrap:
  "td_target net g reward next_st False = Inr t \<longleftrightarrow>
     (\<exists>ns q. next_st = Some ns \<and> forward net ns = Inr q \<and> q \<noteq> []
        \<and> t = reward + g * Max (set q))"
  by (cases next_st) (auto simp: td_target_def float_tensor_def bind_err_eq_Inr torch_max_Inr)

lemma train_loop_Cons_Inr:
  "train_loop fit g on (tr # trs) = Inr res \<longleftrightarrow>
     (\<exists>on'. train_one fit g on tr = Inr on' \<and> train_loop fit g on' trs = Inr res)"
  by (cases "train_one fit g on tr") simp_all

text \<open>One pass of the loop body: the target it writes and the step it takes.\<close>

lemma train_one_target:
  assumes "train_one fit g (opt, net) (st, action, reward, next_st, terminal) = Inr res"
  shows "\<exists>x q target q'.
           st = Some x \<and> forward net x = Inr q
         \<and> td_target net g reward next_st terminal = Inr target
         \<and> set_item q action target = Inr q'
         \<and> res = fit opt net x q'
         \<and> (terminal \<longrightarrow> target = reward)
         \<and> (\<not> terminal \<longrightarrow>
              (\<exists>ns qn. next_st = Some ns \<and> forward net ns = Inr qn \<and> qn \<noteq> []
                 \<and> target = spec_target g qn reward terminal
                 \<and> target = reward + g * Max (set qn)))"
proof -
  from assms obtain target x q q' where
    t: "td_target net g reward next_st terminal = Inr target"
    and x: "float_tensor st = Inr x"
    and q: "forward net x = Inr q"
    and q': "set_item q action target = Inr q'"
    and res: "res = fit opt net x q'"
    by (auto simp: train_one_def bind_err_eq_Inr)
  from x have st: "st = Some x"
    by (cases st) (simp_all add: float_tensor_def)
  have tm: "terminal \<longrightarrow> target = reward"
    using t by (auto simp: td_target_terminal)
  have boot: "\<not> terminal \<longrightarrow>
      (\<exists>ns qn. next_st = Some ns \<and> forward net ns = Inr qn \<and> qn \<noteq> []
         \<and> target = spec_target g qn reward terminal
         \<and> target = reward + g * Max (set qn))"
    using t by (auto simp: td_target_bootstrap spec_target_def)
  from st q t q' res tm boot show ?thesis by blast
qed

lemma train_loop_nth:
  assumes "train_loop fit g on trs = Inr res" and "i < length trs"
  shows "\<exists>on_i on_i'. train_loop fit g on (take i trs) = Inr on_i
           \<and> train_one fit g on_i (trs ! i) = Inr on_i'
           \<and> train_loop fit g on (take (Suc i) trs) = Inr on_i'"
  using assms
proof (induction trs arbitrary: on i)
  case Nil
  then show ?case by simp
next
  case (Cons tr trs)
  from Cons.prems(1) obtain on' where
    one: "train_one fit g on tr = Inr on'" and rest: "train_loop fit g on' trs = Inr res"
    using train_loop_Cons_Inr[of fit g on tr trs res] by blast
  show ?case
  proof (cases i)
    case 0
    then show ?thesis using one by simp
  next
    case (Suc j)
    with Cons.prems(2) have j: "j < length trs" by simp
    from Cons.IH[OF rest j] show ?thesis
      using one by (simp add: Suc)
  qed
qed

text \<open>The example batch, step by step.\<close>

lemma biased_net_zero: "biased_net [0, 0, 0] = example_net"
  by (simp add: biased_net_def example_net_def)

lemma bias_fit_biased: "bias_fit opt (biased_net b) x t = (opt, biased_net t)"
  by (simp add: bias_fit_def biased_net_def)

lemma fwd_biased_fresh:
  "forward (biased_net [a, b, c]) [1, 1, 1, 1, 1, 1, 1, 1, 1, 1, 1, 1, 1, 1] =
     Inr [1 + a, 14 + b, 1 + c]"
  by (simp add: forward_def apply_linear_def example_net_def biased_net_def relu_def dot_def
      numeral_eq_Suc)

lemma fwd_biased_post:
  "forward (biased_net [a, b, c]) [1, 1, 1, 1, 3 / 2, 1, 1, 1, 1, 1, 1, 11 / 10, 1, 1] =
     Inr [1 + a, 73 / 5 + b, 1 + c]"
  by (simp add: forward_def apply_linear_def example_net_def biased_net_def relu_def dot_def
      numeral_eq_Suc)

lemma batch_fields:
  "memory batch_handler = example_batch"
  "gamma batch_handler = 19 / 20"
  "model batch_handler = biased_net [0, 0, 0]"
  "optimizer batch_handler = ()"
  "epsilon batch_handler = 1"
  "epsilon_min batch_handler = 1 / 100"
  "epsilon_decay batch_handler = 199 / 200"
  by (simp_all add: batch_handler_def experienced_defs biased_net_zero)

lemma batch_step0:
  "train_one bias_fit (19 / 20) ((), biased_net [0, 0, 0]) first_transition =
     Inr ((), biased_net [1, 73 / 5, 69 / 5])"
  by (simp add: train_one_def td_target_def float_tensor_def first_transition_def
      fwd_biased_fresh fwd_biased_post torch_max_def set_item_def bias_fit_biased)

lemma batch_step1:
  "train_one bias_fit (19 / 20) ((), biased_net [1, 73 / 5, 69 / 5])
     (Some [1, 1, 1, 1, 1, 1, 1, 1, 1, 1, 1, 1, 1, 1], 0, 1 / 4,
      Some [1, 1, 1, 1, 1, 1, 1, 1, 1, 1, 1, 1, 1, 1], False) =
     Inr ((), biased_net [1371 / 50, 143 / 5, 74 / 5])"
  by (simp add: train_one_def td_target_def float_tensor_def
      fwd_biased_fresh torch_max_def set_item_def bias_fit_biased)

lemma batch_step2:
  "train_one bias_fit (19 / 20) ((), biased_net [1371 / 50, 143 / 5, 74 / 5])
     (Some [1, 1, 1, 1, 1, 1, 1, 1, 1, 1, 1, 1, 1, 1], 1, - 1, None, True) =
     Inr ((), biased_net [1421 / 50, - 1, 79 / 5])"
  by (simp add: train_one_def td_target_def float_tensor_def
      fwd_biased_fresh torch_max_def set_item_def bias_fit_biased)

lemma batch_prefixes:
  "train_loop bias_fit (19 / 20) ((), biased_net [0, 0, 0]) (take 1 example_batch) =
     Inr ((), biased_net [1, 73 / 5, 69 / 5])"
  "train_loop bias_fit (19 / 20) ((), biased_net [0, 0, 0]) (take 2 example_batch) =
     Inr ((), biased_net [1371 / 50, 143 / 5, 74 / 5])"
  "train_loop bias_fit (19 / 20) ((), biased_net [0, 0, 0]) example_batch =
     Inr ((), biased_net [1421 / 50, - 1, 79 / 5])"
  by (simp_all add: example_batch_def batch_step0 batch_step1 batch_step2)

lemma batch_replay:
  "replay bias_fit example_batch 3 batch_handler =
     Inr (batch_handler\<lparr>optimizer := (), model := biased_net [1421 / 50, - 1, 79 / 5],
            epsilon := 199 / 200\<rparr>)"
  by (simp add: replay_def batch_fields batch_prefixes decay_epsilon_def)
     (simp add: example_batch_def)

text \<open>
  C3. Let \<open>replay\<close> run its loop and return. For every transition of the sampled batch,
  at any position \<open>i\<close>, the loop holds the network \<open>net_i\<close> that the steps on the first \<open>i\<close>
  transitions produced (the handler's own network for \<open>i = 0\<close>). The target of the
  transition is \<open>reward\<close> when it is terminal and otherwise \<open>reward\<close> plus the handler's
  \<open>gamma\<close> times the maximum of the scores \<open>net_i\<close> gives the next state. The prediction
  whose action slot receives the target is computed by the same \<open>net_i\<close>, and the optimiser
  step on that pair yields the network held at position \<open>i + 1\<close>. The handler returned
  carries the network and optimiser state left after the last transition.
\<close>

theorem replay_bootstrapped_target:
  assumes "replay fit minibatch batch_size h = Inr h'"
    and "\<not> int (length (memory h)) < batch_size"
    and "i < length minibatch"
    and "minibatch ! i = (st, action, reward, next_st, terminal)"
  shows "\<exists>opt_i net_i x q target q' on.
           train_loop fit (gamma h) (optimizer h, model h) (take i minibatch) = Inr (opt_i, net_i)
         \<and> (i = 0 \<longrightarrow> opt_i = optimizer h \<and> net_i = model h)
         \<and> st = Some x \<and> forward net_i x = Inr q
         \<and> (terminal \<longrightarrow> target = reward)
         \<and> (\<not> terminal \<longrightarrow>
              (\<exists>ns qn. next_st = Some ns \<and> forward net_i ns = Inr qn \<and> qn \<noteq> []
                 \<and> target = reward + gamma h * Max (set qn)
                 \<and> target = spec_target (gamma h) qn reward terminal))
         \<and> set_item q action target = Inr q'
         \<and> train_loop fit (gamma h) (optimizer h, model h) (take (Suc i) minibatch) =
             Inr (fit opt_i net_i x q')
         \<and> train_loop fit (gamma h) (optimizer h, model h) minibatch = Inr on
         \<and> h' = decay_epsilon (h\<lparr>optimizer := fst on, model := snd on\<rparr>)"
proof -
  from assms(1,2) obtain on where
    loop: "train_loop fit (gamma h) (optimizer h, model h) minibatch = Inr on"
    and h': "h' = decay_epsilon (h\<lparr>optimizer := fst on, model := snd on\<rparr>)"
    by (auto simp: replay_def bind_err_eq_Inr split: if_splits)
  from train_loop_nth[OF loop assms(3)] obtain opt_i net_i on_i' where
    pre: "train_loop fit (gamma h) (optimizer h, model h) (take i minibatch) = Inr (opt_i, net_i)"
    and one: "train_one fit (gamma h) (opt_i, net_i) (minibatch ! i) = Inr on_i'"
    and suc: "train_loop fit (gamma h) (optimizer h, model h) (take (Suc i) minibatch) = Inr on_i'"
    by (metis surj_pair)
  have zero: "i = 0 \<longrightarrow> opt_i = optimizer h \<and> net_i = model h"
    using pre by auto
  from one have "train_one fit (gamma h) (opt_i, net_i) (st, action, reward, next_st, terminal)
      = Inr on_i'"
    by (simp only: assms(4))
  from train_one_target[OF this] obtain x q target q' where
    "st = Some x" "forward net_i x = Inr q" "set_item q action target = Inr q'"
    "on_i' = fit opt_i net_i x q'" "terminal \<longrightarrow> target = reward"
    "\<not> terminal \<longrightarrow>
      (\<exists>ns qn. next_st = Some ns \<and> forward net_i ns = Inr qn \<and> qn \<noteq> []
         \<and> target = spec_target (gamma h) qn reward terminal
         \<and> target = reward + gamma h * Max (set qn))"
    by blast
  with pre zero suc loop h' show ?thesis by blast
qed

theorem replay_bootstrapped_target_witness:
  "replay bias_fit example_batch 3 batch_handler =
     Inr (batch_handler\<lparr>optimizer := (), model := biased_net [1421 / 50, - 1, 79 / 5],
            epsilon := 199 / 200\<rparr>)
   \<and> \<not> int (length (memory batch_handler)) < 3
   \<and> length example_batch = 3
   \<and> example_batch ! 0 = first_transition
   \<and> example_batch ! 1 =
       (Some [1, 1, 1, 1, 1, 1, 1, 1, 1, 1, 1, 1, 1, 1], 0, 1 / 4,
        Some [1, 1, 1, 1, 1, 1, 1, 1, 1, 1, 1, 1, 1, 1], False)
   \<and> example_batch ! 2 = (Some [1, 1, 1, 1, 1, 1, 1, 1, 1, 1, 1, 1, 1, 1], 1, - 1, None, True)
   \<and> train_loop bias_fit (gamma batch_handler) (optimizer batch_handler, model batch_handler)
        (take 1 example_batch) = Inr ((), biased_net [1, 73 / 5, 69 / 5])
   \<and> forward (biased_net [1, 73 / 5, 69 / 5]) [1, 1, 1, 1, 1, 1, 1, 1, 1, 1, 1, 1, 1, 1] =
        Inr [2, 143 / 5, 74 / 5]
   \<and> 1371 / 50 = 1 / 4 + gamma batch_handler * Max (set [2, 143 / 5, 74 / 5])
   \<and> train_loop bias_fit (gamma batch_handler) (optimizer batch_handler, model batch_handler)
        (take 2 example_batch) = Inr ((), biased_net [1371 / 50, 143 / 5, 74 / 5])
   \<and> train_loop bias_fit (gamma batch_handler) (optimizer batch_handler, model batch_handler)
        (take 3 example_batch) = Inr ((), biased_net [1421 / 50, - 1, 79 / 5])"
proof -
  have nb: "\<not> int (length (memory batch_handler)) < 3"
    by (simp add: batch_fields example_batch_def)
  have len: "length example_batch = 3" and i0: "0 < length example_batch"
    and i1: "1 < length example_batch" and i2: "2 < length example_batch"
    by (simp_all add: example_batch_def)
  have e0: "example_batch ! 0 =
      (Some [1, 1, 1, 1, 3 / 2, 1, 1, 1, 1, 1, 1, 11 / 10, 1, 1], 2, 1 / 2,
       Some [1, 1, 1, 1, 1, 1, 1, 1, 1, 1, 1, 1, 1, 1], False)"
    and e1: "example_batch ! 1 =
      (Some [1, 1, 1, 1, 1, 1, 1, 1, 1, 1, 1, 1, 1, 1], 0, 1 / 4,
       Some [1, 1, 1, 1, 1, 1, 1, 1, 1, 1, 1, 1, 1, 1], False)"
    and e2: "example_batch ! 2 =
      (Some [1, 1, 1, 1, 1, 1, 1, 1, 1, 1, 1, 1, 1, 1], 1, - 1, None, True)"
    by (simp_all add: example_batch_def first_transition_def)
  have m: "1371 / 50 = 1 / 4 + gamma batch_handler * Max (set [2, 143 / 5, 74 / 5])"
    by (simp add: batch_fields)
  have t3: "take 3 example_batch = example_batch"
    by (simp add: example_batch_def)
  note T0 = replay_bootstrapped_target[OF batch_replay nb i0 e0]
  note T1 = replay_bootstrapped_target[OF batch_replay nb i1 e1]
  note T2 = replay_bootstrapped_target[OF batch_replay nb i2 e2]
  have c: "train_loop bias_fit (gamma batch_handler) (optimizer batch_handler, model batch_handler)
        (take 1 example_batch) = Inr ((), biased_net [1, 73 / 5, 69 / 5])"
    "train_loop bias_fit (gamma batch_handler) (optimizer batch_handler, model batch_handler)
        (take 3 example_batch) = Inr ((), biased_net [1421 / 50, - 1, 79 / 5])"
    by (simp_all only: batch_fields batch_prefixes t3)
  have f: "forward (biased_net [1, 73 / 5, 69 / 5]) [1, 1, 1, 1, 1, 1, 1, 1, 1, 1, 1, 1, 1, 1] =
      Inr [2, 143 / 5, 74 / 5]"
    by (simp add: fwd_biased_fresh)
  have e0': "example_batch ! 0 = first_transition"
    by (simp add: example_batch_def)
  from T1 obtain opt_i net_i x q target q' qn where
    p: "train_loop bias_fit (gamma batch_handler) (optimizer batch_handler, model batch_handler)
          (take 1 example_batch) = Inr (opt_i, net_i)"
    and x: "Some [1, 1, 1, 1, 1, 1, 1, 1, 1, 1, 1, 1, 1, 1] = Some x"
    and q: "forward net_i x = Inr q"
    and qn: "forward net_i [1, 1, 1, 1, 1, 1, 1, 1, 1, 1, 1, 1, 1, 1] = Inr qn"
    and tg: "target = 1 / 4 + gamma batch_handler * Max (set qn)"
    and q': "set_item q 0 target = Inr q'"
    and s: "train_loop bias_fit (gamma batch_handler) (optimizer batch_handler, model batch_handler)
          (take (Suc 1) example_batch) = Inr (bias_fit opt_i net_i x q')"
    by auto
  from p c(1) have net: "net_i = biased_net [1, 73 / 5, 69 / 5]" by simp
  from x have xe: "x = [1, 1, 1, 1, 1, 1, 1, 1, 1, 1, 1, 1, 1, 1]" by simp
  from q qn f have qe: "q = [2, 143 / 5, 74 / 5]" "qn = [2, 143 / 5, 74 / 5]"
    by (simp_all add: net xe)
  from tg m have te: "target = 1371 / 50" by (simp only: qe)
  from q' have q'e: "q' = [1371 / 50, 143 / 5, 74 / 5]"
    by (simp add: qe te set_item_def)
  from s have c2: "train_loop bias_fit (gamma batch_handler)
      (optimizer batch_handler, model batch_handler) (take 2 example_batch) =
      Inr ((), biased_net [1371 / 50, 143 / 5, 74 / 5])"
    by (simp add: net q'e bias_fit_biased numeral_2_eq_2)
  from T0 T2 show ?thesis
    using batch_replay nb len e0' e1 e2 c(1) f m c2 c(2) by (intro conjI)
qed

subsection \<open>The policy\<close>

lemma act_exploit:
  "epsilon h < draw \<Longrightarrow> act draw pick st h = bind_err (forward (model h) st) torch_argmax"
  by (simp add: act_def)

lemma act_explore:
  "draw \<le> epsilon h \<Longrightarrow> act draw pick st h = randrange pick (action_size h)"
  by (simp add: act_def)

lemma argmax_from_first_max:
  assumes "pre \<noteq> []" and "best < length pre" and "bv = pre ! best"
    and "bv = Max (set pre)" and "\<forall>j<best. pre ! j < bv"
  shows "first_max (pre @ vs) (argmax_from best bv (length pre) vs)"
  using assms
proof (induction vs arbitrary: pre best bv)
  case Nil
  then show ?case by (simp add: first_max_def)
next
  case (Cons v vs)
  let ?pre = "pre @ [v]"
  have len: "length ?pre = Suc (length pre)" by simp
  have mx: "Max (insert v (set pre)) = max v (Max (set pre))"
    using Cons.prems(1) by (simp add: Max_insert)
  show ?case
  proof (cases "bv < v")
    case True
    have a: "?pre \<noteq> []" by simp
    have b: "length pre < length ?pre" by simp
    have c: "v = ?pre ! length pre" by simp
    have d: "v = Max (set ?pre)"
      using True Cons.prems(4) by (simp add: mx max_def)
    have e: "\<forall>j<length pre. ?pre ! j < v"
    proof (intro allI impI)
      fix j assume j: "j < length pre"
      then have "pre ! j \<le> Max (set pre)" by simp
      also have "\<dots> < v" using True Cons.prems(4) by simp
      finally show "?pre ! j < v" using j by (simp add: nth_append)
    qed
    from Cons.IH[OF a b c d e] True show ?thesis
      by (simp add: len)
  next
    case False
    have a: "?pre \<noteq> []" by simp
    have b: "best < length ?pre" using Cons.prems(2) by simp
    have c: "bv = ?pre ! best" using Cons.prems(2,3) by (simp add: nth_append)
    have d: "bv = Max (set ?pre)"
      using False Cons.prems(4) by (simp add: mx max_def)
    have e: "\<forall>j<best. ?pre ! j < bv"
      using Cons.prems(2,5) by (simp add: nth_append)
    from Cons.IH[OF a b c d e] False show ?thesis
      by (simp add: len)
  qed
qed

lemma torch_argmax_first_max:
  assumes "torch_argmax t = Inr i"
  shows "0 \<le> i \<and> first_max t (nat i)"
proof (cases t)
  case Nil
  with assms show ?thesis by (simp add: torch_argmax_def)
next
  case (Cons v vs)
  with assms have i: "i = int (argmax_from 0 v 1 vs)"
    by (simp add: torch_argmax_def)
  have "first_max ([v] @ vs) (argmax_from 0 v (length [v]) vs)"
    by (rule argmax_from_first_max) simp_all
  then show ?thesis
    by (simp add: i Cons)
qed

text \<open>
  C6. With epsilon 0 and the draw 0 (a value \<open>np.random.rand\<close> can return), \<open>act\<close> on the
  fresh handler's state takes the exploring branch and returns the random action 0,
  while the network's scores \<open>[1, 14, 1]\<close> have their maximum at action 1. For every
  draw above epsilon \<open>act\<close> does return the argmax (\<open>act_exploit\<close>).
\<close>

theorem act_zero_epsilon_explores:
  "act 0 0 (get_current_state fresh_handler) (fresh_handler\<lparr>epsilon := 0\<rparr>) = Inr 0
   \<and> bind_err (forward (model (fresh_handler\<lparr>epsilon := 0\<rparr>)) (get_current_state fresh_handler))
        torch_argmax = Inr 1"
  by (simp add: act_def randrange_def fresh_state fwd_fresh torch_argmax_def)
     (simp add: fresh_defs fwd_fresh torch_argmax_def)

subsection \<open>The decay of epsilon\<close>

lemma replay_epsilon:
  assumes "replay fit minibatch batch_size h = Inr h'"
    and "\<not> int (length (memory h)) < batch_size"
  shows "epsilon h' = (if epsilon_min h < epsilon h then epsilon h * epsilon_decay h else epsilon h)"
proof -
  from assms obtain on where
    h': "h' = decay_epsilon (h\<lparr>optimizer := fst on, model := snd on\<rparr>)"
    by (auto simp: replay_def bind_err_eq_Inr split: if_splits)
  show ?thesis
    unfolding h' by (simp add: decay_epsilon_def)
qed

text \<open>What the guard does keep: epsilon never falls below \<open>epsilon_min * epsilon_decay\<close>.\<close>

lemma decay_epsilon_bound:
  assumes "0 \<le> epsilon_decay h" and "epsilon_decay h \<le> 1" and "0 \<le> epsilon_min h"
    and "epsilon_min h * epsilon_decay h \<le> epsilon h"
  shows "epsilon_min h * epsilon_decay h \<le> epsilon (decay_epsilon h)"
proof (cases "epsilon_min h < epsilon h")
  case True
  then have "epsilon_min h * epsilon_decay h \<le> epsilon h * epsilon_decay h"
    using assms(1) by (intro mult_right_mono) simp_all
  with True show ?thesis by (simp add: decay_epsilon_def)
next
  case False
  with assms(4) show ?thesis by (simp add: decay_epsilon_def)
qed

text \<open>Bounds on the powers of \<open>199/200\<close>, by repeated squaring with rounded rationals.\<close>

lemma pow_lower:
  fixes a :: real
  assumes "x \<le> a ^ m" and "y \<le> a ^ n" and "0 \<le> x" and "0 \<le> y" and "z \<le> x * y"
    and "k = m + n"
  shows "z \<le> a ^ k"
proof -
  have "x * y \<le> a ^ m * a ^ n"
    using assms by (intro mult_mono) auto
  then show ?thesis using assms(5,6) by (simp add: power_add)
qed

lemma pow_upper:
  fixes a :: real
  assumes "a ^ m \<le> x" and "a ^ n \<le> y" and "0 \<le> a" and "x * y \<le> z"
    and "k = m + n"
  shows "a ^ k \<le> z"
proof -
  have "0 \<le> a ^ n" using assms(3) by simp
  have "0 \<le> x" using assms(1,3) by (meson order_trans zero_le_power)
  have "a ^ m * a ^ n \<le> x * y"
    using assms \<open>0 \<le> a ^ n\<close> \<open>0 \<le> x\<close> by (intro mult_mono) auto
  then show ?thesis using assms(4,5) by (simp add: power_add)
qed

lemma decay_918: "(1 / 100 :: real) < (199 / 200) ^ 918"
proof -
  let ?a = "199 / 200 :: real"
  have lb1: "199 / 200 \<le> ?a ^ 1" by simp
  have lb2: "39601 / 40000 \<le> ?a ^ 2"
    by (rule pow_lower [OF lb1 lb1]) simp_all
  have lb3: "7880599 / 8000000 \<le> ?a ^ 3"
    by (rule pow_lower [OF lb2 lb1]) simp_all
  have lb6: "242593127339 / 250000000000 \<le> ?a ^ 6"
    by (rule pow_lower [OF lb3 lb3]) simp_all
  have lb7: "965520646809 / 1000000000000 \<le> ?a ^ 7"
    by (rule pow_lower [OF lb6 lb1]) simp_all
  have lb14: "466115059707 / 500000000000 \<le> ?a ^ 14"
    by (rule pow_lower [OF lb7 lb7]) simp_all
  have lb28: "434526497771 / 500000000000 \<le> ?a ^ 28"
    by (rule pow_lower [OF lb14 lb14]) simp_all
  have lb56: "37762655453 / 50000000000 \<le> ?a ^ 56"
    by (rule pow_lower [OF lb28 lb28]) simp_all
  have lb57: "375738421757 / 500000000000 \<le> ?a ^ 57"
    by (rule pow_lower [OF lb56 lb1]) simp_all
  have lb114: "564717446337 / 1000000000000 \<le> ?a ^ 114"
    by (rule pow_lower [OF lb57 lb57]) simp_all
  have lb228: "318905794197 / 1000000000000 \<le> ?a ^ 228"
    by (rule pow_lower [OF lb114 lb114]) simp_all
  have lb229: "158655632613 / 500000000000 \<le> ?a ^ 229"
    by (rule pow_lower [OF lb228 lb1]) simp_all
  have lb458: "100686439039 / 1000000000000 \<le> ?a ^ 458"
    by (rule pow_lower [OF lb229 lb229]) simp_all
  have lb459: "100183006843 / 1000000000000 \<le> ?a ^ 459"
    by (rule pow_lower [OF lb458 lb1]) simp_all
  have lb918: "501831743 / 50000000000 \<le> ?a ^ 918"
    by (rule pow_lower [OF lb459 lb459]) simp_all
  from lb918 show ?thesis by simp
qed

lemma decay_919: "(199 / 200 :: real) ^ 919 < 1 / 100"
proof -
  let ?a = "199 / 200 :: real"
  have ub1: "?a ^ 1 \<le> 199 / 200" by simp
  have ub2: "?a ^ 2 \<le> 39601 / 40000"
    by (rule pow_upper [OF ub1 ub1]) simp_all
  have ub3: "?a ^ 3 \<le> 7880599 / 8000000"
    by (rule pow_upper [OF ub2 ub1]) simp_all
  have ub6: "?a ^ 6 \<le> 970372509357 / 1000000000000"
    by (rule pow_upper [OF ub3 ub3]) simp_all
  have ub7: "?a ^ 7 \<le> 965520646811 / 1000000000000"
    by (rule pow_upper [OF ub6 ub1]) simp_all
  have ub14: "?a ^ 14 \<le> 932230119419 / 1000000000000"
    by (rule pow_upper [OF ub7 ub7]) simp_all
  have ub28: "?a ^ 28 \<le> 27157906111 / 31250000000"
    by (rule pow_upper [OF ub14 ub14]) simp_all
  have ub56: "?a ^ 56 \<le> 377626554539 / 500000000000"
    by (rule pow_upper [OF ub28 ub28]) simp_all
  have ub57: "?a ^ 57 \<le> 751476843533 / 1000000000000"
    by (rule pow_upper [OF ub56 ub1]) simp_all
  have ub114: "?a ^ 114 \<le> 564717446367 / 1000000000000"
    by (rule pow_upper [OF ub57 ub57]) simp_all
  have ub228: "?a ^ 228 \<le> 39863224279 / 125000000000"
    by (rule pow_upper [OF ub114 ub114]) simp_all
  have ub229: "?a ^ 229 \<le> 317311265261 / 1000000000000"
    by (rule pow_upper [OF ub228 ub1]) simp_all
  have ub458: "?a ^ 458 \<le> 50343219531 / 500000000000"
    by (rule pow_upper [OF ub229 ub229]) simp_all
  have ub459: "?a ^ 459 \<le> 100183006867 / 1000000000000"
    by (rule pow_upper [OF ub458 ub1]) simp_all
  have ub918: "?a ^ 918 \<le> 2007326973 / 200000000000"
    by (rule pow_upper [OF ub459 ub459]) simp_all
  have ub919: "?a ^ 919 \<le> 9986451691 / 1000000000000"
    by (rule pow_upper [OF ub918 ub1]) simp_all
  from ub919 show ?thesis by simp
qed

lemma replay_experienced:
  "replay frozen_fit [first_transition] 1 (experienced_handler\<lparr>epsilon := e\<rparr>) =
     Inr (experienced_handler\<lparr>epsilon := (if 1 / 100 < e then e * (199 / 200) else e)\<rparr>)"
proof -
  let ?h = "experienced_handler\<lparr>epsilon := e\<rparr>"
  have same: "?h\<lparr>optimizer := (), model := example_net\<rparr> = ?h"
    by (simp add: experienced_defs)
  have "replay frozen_fit [first_transition] 1 ?h =
          Inr (decay_epsilon (?h\<lparr>optimizer := (), model := example_net\<rparr>))"
    by (simp add: replay_def experienced_fields train_first)
  also have "\<dots> = Inr (decay_epsilon ?h)"
    by (simp only: same)
  finally show ?thesis
    by (simp add: decay_epsilon_def experienced_fields)
qed

lemma experienced_epsilon: "experienced_handler\<lparr>epsilon := 1\<rparr> = experienced_handler"
  by (simp add: experienced_defs)

lemma decay_above_min:
  assumes "n \<le> 918"
  shows "(1 / 100 :: real) < (199 / 200) ^ n"
proof -
  have "(199 / 200 :: real) ^ 918 \<le> (199 / 200) ^ n"
    using assms by (intro power_decreasing) simp_all
  then show ?thesis by (rule less_le_trans[OF decay_918])
qed

text \<open>With the default hyperparameters the first 919 effective updates multiply epsilon
  by \<open>0.995\<close> each, whatever the optimiser and the sampled batches are.\<close>

lemma replay_frame:
  assumes "replay fit minibatch batch_size h = Inr h'"
  shows "memory h' = memory h \<and> epsilon_min h' = epsilon_min h
       \<and> epsilon_decay h' = epsilon_decay h"
proof (cases "int (length (memory h)) < batch_size")
  case True
  with assms show ?thesis by (simp add: replay_def)
next
  case False
  with assms obtain on where
    h': "h' = decay_epsilon (h\<lparr>optimizer := fst on, model := snd on\<rparr>)"
    by (auto simp: replay_def bind_err_eq_Inr split: if_splits)
  show ?thesis
    unfolding h' by (simp add: decay_epsilon_def)
qed

lemma replay_times_default_epsilon:
  assumes "replay_times fit minibatch batch_size n h = Inr h'"
    and "\<not> int (length (memory h)) < batch_size"
    and "epsilon h = 1" and "epsilon_min h = 1 / 100" and "epsilon_decay h = 199 / 200"
    and "n \<le> 919"
  shows "epsilon h' = (199 / 200) ^ n \<and> memory h' = memory h
       \<and> epsilon_min h' = 1 / 100 \<and> epsilon_decay h' = 199 / 200"
  using assms(1,6)
proof (induction n arbitrary: h')
  case 0
  then show ?case using assms(3-5) by simp
next
  case (Suc n)
  from Suc.prems(1) obtain h1 where
    h1: "replay_times fit minibatch batch_size n h = Inr h1"
    and r: "replay fit minibatch batch_size h1 = Inr h'"
    by (auto simp: bind_err_eq_Inr)
  from Suc.prems(2) have n: "n \<le> 918" by simp
  from Suc.IH[OF h1] n have ih: "epsilon h1 = (199 / 200) ^ n" "memory h1 = memory h"
    "epsilon_min h1 = 1 / 100" "epsilon_decay h1 = 199 / 200"
    by simp_all
  have big: "\<not> int (length (memory h1)) < batch_size"
    using assms(2) ih(2) by simp
  from replay_epsilon[OF r big] decay_above_min[OF n] ih
  have "epsilon h' = (199 / 200) ^ Suc n" by simp
  with replay_frame[OF r] ih show ?case by simp
qed

lemma replay_times_experienced:
  "n \<le> 919 \<Longrightarrow>
     replay_times frozen_fit [first_transition] 1 n experienced_handler =
       Inr (experienced_handler\<lparr>epsilon := (199 / 200) ^ n\<rparr>)"
proof (induction n)
  case 0
  then show ?case by (simp add: experienced_epsilon)
next
  case (Suc n)
  then have "n \<le> 918" by simp
  from decay_above_min[OF this] Suc show ?case
    by (simp add: replay_experienced)
qed

text \<open>
  C5. Epsilon starts at 1 and each training update that finds it above \<open>epsilon_min\<close>
  multiplies it by \<open>0.995\<close>. The test precedes the multiplication, so the last decay
  carries it below the minimum: after 919 updates of the handler that has completed one
  learning cycle, epsilon is \<open>0.995 ^ 919\<close>, less than \<open>0.01\<close>.
\<close>

theorem epsilon_falls_below_min:
  "learn_from_inference (1 / 2) (3 / 10) 2 fresh_handler = Inr experienced_handler
   \<and> epsilon experienced_handler = 1
   \<and> (\<exists>h. replay_times frozen_fit [first_transition] 1 919 experienced_handler = Inr h
          \<and> epsilon h = (199 / 200) ^ 919
          \<and> epsilon h < epsilon_min h \<and> epsilon_min h = 1 / 100)"
  using replay_times_experienced[of 919] decay_919 learn_fresh
  by (simp add: experienced_fields del: power_numeral)

end
